theory Spec2Isabelle
  imports Complex_Main
begin

section \<open>Strings and the host's URI escaping\<close>

text \<open>
  A JavaScript string is modelled by the byte sequence of its UTF-8 encoding. The
  program only ever looks for ASCII characters (the scheme prefix, the slash, digits,
  lowercase letters, the percent sign), and an ASCII byte never occurs inside a
  multi-byte sequence, so prefix tests, splitting and the patterns below see the same
  thing on the bytes as on the UTF-16 code units. A byte sequence that is not well-formed
  UTF-8 stands for a string with a lone surrogate.
\<close>

definition startsWith :: "string \<Rightarrow> string \<Rightarrow> bool" where
  "startsWith s p = (take (length p) s = p)"

text \<open>\<^verbatim>\<open>s.split(c)\<close> for a one-character separator: n separators give n + 1 pieces.\<close>

fun split_on :: "char \<Rightarrow> string \<Rightarrow> string list" where
  "split_on sep [] = [[]]"
| "split_on sep (c # cs) =
     (if c = sep then [] # split_on sep cs
      else (case split_on sep cs of [] \<Rightarrow> [[c]] | p # ps \<Rightarrow> (c # p) # ps))"

text \<open>\<^verbatim>\<open>parts.join(sep)\<close>.\<close>

fun join :: "string \<Rightarrow> string list \<Rightarrow> string" where
  "join sep [] = []"
| "join sep [p] = p"
| "join sep (p # q # ps) = p @ sep @ join sep (q # ps)"

definition is_digit :: "char \<Rightarrow> bool" where
  "is_digit c = (48 \<le> (of_char c :: nat) \<and> (of_char c :: nat) \<le> 57)"

definition is_lower :: "char \<Rightarrow> bool" where
  "is_lower c = (97 \<le> (of_char c :: nat) \<and> (of_char c :: nat) \<le> 122)"

definition is_upper :: "char \<Rightarrow> bool" where
  "is_upper c = (65 \<le> (of_char c :: nat) \<and> (of_char c :: nat) \<le> 90)"

text \<open>
  A pattern that is a fixed sequence of character classes, matched at the start of the
  string; the result is what follows the match.
\<close>

fun match_classes :: "(char \<Rightarrow> bool) list \<Rightarrow> string \<Rightarrow> string option" where
  "match_classes [] s = Some s"
| "match_classes (p # ps) [] = None"
| "match_classes (p # ps) (c # cs) = (if p c then match_classes ps cs else None)"

definition date_classes :: "(char \<Rightarrow> bool) list" where
  "date_classes =
     [is_digit, is_digit, is_digit, is_digit, (=) CHR ''-'',
      is_digit, is_digit, (=) CHR ''-'', is_digit, is_digit]"

text \<open>\<^verbatim>\<open>/^\d{4}-\d{2}-\d{2}$/.test(s)\<close>: the whole string is the match.\<close>

definition date_regex :: "string \<Rightarrow> bool" where
  "date_regex s = (match_classes date_classes s = Some [])"

subsection \<open>encodeURIComponent and decodeURIComponent\<close>

definition hex_val :: "char \<Rightarrow> nat option" where
  "hex_val c =
     (let n = (of_char c :: nat) in
      if 48 \<le> n \<and> n \<le> 57 then Some (n - 48)
      else if 65 \<le> n \<and> n \<le> 70 then Some (n - 55)
      else if 97 \<le> n \<and> n \<le> 102 then Some (n - 87)
      else None)"

definition hex_digit :: "nat \<Rightarrow> char" where
  "hex_digit n = (if n < 10 then char_of (48 + n) else char_of (55 + n))"

text \<open>The characters encodeURIComponent leaves alone: letters, digits and \<^verbatim>\<open>-_.!~*'()\<close>.\<close>

definition unreserved :: "char \<Rightarrow> bool" where
  "unreserved c =
     (is_upper c \<or> is_lower c \<or> is_digit c \<or> c \<in> set ''-_.!~*()'' \<or> c = CHR 0x27)"

definition is_continuation :: "nat \<Rightarrow> bool" where
  "is_continuation b = (128 \<le> b \<and> b \<le> 191)"

text \<open>The octets of one code point of two to four bytes, as the Unicode standard allows them.\<close>

fun valid_utf8 :: "nat list \<Rightarrow> bool" where
  "valid_utf8 [a, b] = (194 \<le> a \<and> a \<le> 223 \<and> is_continuation b)"
| "valid_utf8 [a, b, c] =
     ((a = 224 \<and> 160 \<le> b \<and> b \<le> 191 \<or> 225 \<le> a \<and> a \<le> 236 \<and> is_continuation b
       \<or> a = 237 \<and> 128 \<le> b \<and> b \<le> 159 \<or> 238 \<le> a \<and> a \<le> 239 \<and> is_continuation b)
      \<and> is_continuation c)"
| "valid_utf8 [a, b, c, d] =
     ((a = 240 \<and> 144 \<le> b \<and> b \<le> 191 \<or> 241 \<le> a \<and> a \<le> 243 \<and> is_continuation b
       \<or> a = 244 \<and> 128 \<le> b \<and> b \<le> 143)
      \<and> is_continuation c \<and> is_continuation d)"
| "valid_utf8 bs = False"

text \<open>The number of leading 1 bits of an octet; 5 stands for "more than four".\<close>

definition leading_ones :: "nat \<Rightarrow> nat" where
  "leading_ones b =
     (if b < 128 then 0 else if b < 192 then 1 else if b < 224 then 2
      else if b < 240 then 3 else if b < 248 then 4 else 5)"

text \<open>A string is well formed when every code point in it is (no lone surrogate).\<close>

function well_formed :: "string \<Rightarrow> bool" where
  "well_formed [] = True"
| "well_formed (c # cs) =
     (let b = (of_char c :: nat); n = leading_ones b in
      if n = 0 then well_formed cs
      else if valid_utf8 (b # map of_char (take (n - 1) cs)) then well_formed (drop (n - 1) cs)
      else False)"
  by pat_completeness auto
termination
  by (relation "measure length") auto

definition encode_char :: "char \<Rightarrow> string" where
  "encode_char c =
     (if unreserved c then [c]
      else [CHR ''%'', hex_digit ((of_char c :: nat) div 16), hex_digit ((of_char c :: nat) mod 16)])"

text \<open>\<^verbatim>\<open>encodeURIComponent(s)\<close>; \<open>None\<close> is the URIError it throws on a lone surrogate.\<close>

definition encodeURIComponent :: "string \<Rightarrow> string option" where
  "encodeURIComponent s = (if well_formed s then Some (concat (map encode_char s)) else None)"

text \<open>The octet of an escape \<^verbatim>\<open>%XX\<close> at the start of the string.\<close>

fun parse_escape :: "string \<Rightarrow> nat option" where
  "parse_escape (p # h # l # rest) =
     (if p = CHR ''%'' then
        (case hex_val h of None \<Rightarrow> None
         | Some a \<Rightarrow> (case hex_val l of None \<Rightarrow> None | Some b \<Rightarrow> Some (16 * a + b)))
      else None)"
| "parse_escape s = None"

text \<open>The octets of the j further escapes that a leading octet announces.\<close>

fun continuation :: "nat \<Rightarrow> string \<Rightarrow> nat list option" where
  "continuation 0 s = Some []"
| "continuation (Suc j) s =
     (case parse_escape s of None \<Rightarrow> None
      | Some b \<Rightarrow> map_option ((#) b) (continuation j (drop 3 s)))"

text \<open>
  \<^verbatim>\<open>decodeURIComponent(s)\<close>, after the Decode operation of ECMAScript: a character other
  than the percent sign is copied; an escape of an ASCII octet gives that character; an
  escape of a leading octet must be followed by the escapes of its continuation octets,
  together the UTF-8 encoding of one code point. Every escape takes three characters.
  \<open>None\<close> is the URIError.
\<close>

function decodeURIComponent :: "string \<Rightarrow> string option" where
  "decodeURIComponent [] = Some []"
| "decodeURIComponent (c # cs) =
     (if c = CHR ''%'' then
        (case parse_escape (c # cs) of None \<Rightarrow> None
         | Some b \<Rightarrow>
             if leading_ones b = 0
             then map_option ((#) (char_of b)) (decodeURIComponent (drop 2 cs))
             else if leading_ones b = 1 \<or> 4 < leading_ones b then None
             else (case continuation (leading_ones b - 1) (drop 2 cs) of None \<Rightarrow> None
                   | Some bs \<Rightarrow>
                       if valid_utf8 (b # bs)
                       then map_option ((@) (map char_of (b # bs)))
                              (decodeURIComponent (drop (2 + 3 * (leading_ones b - 1)) cs))
                       else None))
      else map_option ((#) c) (decodeURIComponent cs))"
  by pat_completeness auto
termination
  by (relation "measure length") auto

section \<open>The URI codec of uriResolver.js\<close>

record URIComponents =
  date :: string
  source :: string
  type :: string
  slug :: string
  full :: string

text \<open>
  Every \<^verbatim>\<open>throw new Error(...)\<close> that the functions below can reach is one
  constructor, named after its message; \<open>FailedToResolve\<close> carries the URI and the error
  it wraps. \<open>TypeError\<close> and \<open>URIError\<close> are the host's own exceptions.
\<close>

datatype error =
    InvalidURIFormat
  | URIFormatSegments
  | DateFormat
  | MissingComponents
  | NoResolver string
  | FailedToResolve string error
  | MissingField string
  | InvalidTimestamp
  | InvalidEventType
  | InvalidSource
  | InvalidTitle
  | InvalidLinkedURI
  | InvalidMood
  | InvalidDuration
  | EventNotFound string
  | TypeError
  | URIError

text \<open>
  The non-empty pieces of the URI after its first six characters (\<^verbatim>\<open>substring(6)\<close> leaves
  the second slash of the prefix, which makes one more empty piece).
\<close>

definition uri_parts :: "string \<Rightarrow> string list" where
  "uri_parts uri = filter (\<lambda>part. 0 < length part) (split_on CHR ''/'' (drop 6 uri))"

text \<open>
  With fewer than four pieces the URI is refused. Otherwise the first three are the date,
  the source and the type, and the others, joined again and unescaped, are the slug; the
  date is checked last.
\<close>

definition parseURI :: "string \<Rightarrow> error + URIComponents" where
  "parseURI uri =
     (if startsWith uri ''life://'' then
        (case uri_parts uri of
           d # s # t # p # ps \<Rightarrow>
             (case decodeURIComponent (join ''/'' (p # ps)) of
                None \<Rightarrow> Inl URIError
              | Some g \<Rightarrow>
                  if date_regex d
                  then Inr \<lparr>date = d, source = s, type = t, slug = g, full = uri\<rparr>
                  else Inl DateFormat)
         | _ \<Rightarrow> Inl URIFormatSegments)
      else Inl InvalidURIFormat)"

section \<open>JavaScript values\<close>

text \<open>
  The values the validators receive: what \<^verbatim>\<open>JSON.parse\<close> produces, and
  \<^verbatim>\<open>undefined\<close>. A number is a rational (every finite double is one; the two zeros
  are not told apart, and the program treats them alike) or one of the three special
  values. An object is the list of its own properties; the first binding of a key counts.
\<close>

datatype jsnum = Finite rat | NaN | PosInfinity | NegInfinity

datatype jsval =
    JUndefined
  | JNull
  | JBool bool
  | JNum jsnum
  | JStr string
  | JArr "jsval list"
  | JObj "(string \<times> jsval) list"

text \<open>Truthiness, as \<^verbatim>\<open>!x\<close>, \<^verbatim>\<open>x && y\<close> and \<^verbatim>\<open>if (x)\<close> see it.\<close>

fun truthy :: "jsval \<Rightarrow> bool" where
  "truthy JUndefined = False"
| "truthy JNull = False"
| "truthy (JBool b) = b"
| "truthy (JNum (Finite q)) = (q \<noteq> 0)"
| "truthy (JNum NaN) = False"
| "truthy (JNum PosInfinity) = True"
| "truthy (JNum NegInfinity) = True"
| "truthy (JStr s) = (s \<noteq> [])"
| "truthy (JArr xs) = True"
| "truthy (JObj fs) = True"

text \<open>
  \<^verbatim>\<open>v[k]\<close> for the property names this program reads (timestamp, source, type, title,
  linked_uris, mood, duration, uri, date, slug): own properties of an object, and
  \<^verbatim>\<open>undefined\<close> on a primitive or an array, which have none of them. On
  \<^verbatim>\<open>undefined\<close> and \<^verbatim>\<open>null\<close> the access throws; the callers test \<open>nullish\<close> first.
\<close>

fun js_get :: "jsval \<Rightarrow> string \<Rightarrow> jsval" where
  "js_get (JObj fs) k = (case map_of fs k of None \<Rightarrow> JUndefined | Some v \<Rightarrow> v)"
| "js_get v k = JUndefined"

definition nullish :: "jsval \<Rightarrow> bool" where
  "nullish v = (v = JUndefined \<or> v = JNull)"

fun is_string :: "jsval \<Rightarrow> bool" where
  "is_string (JStr s) = True"
| "is_string v = False"

fun isArray :: "jsval \<Rightarrow> bool" where
  "isArray (JArr xs) = True"
| "isArray v = False"

fun elements :: "jsval \<Rightarrow> jsval list" where
  "elements (JArr xs) = xs"
| "elements v = []"

text \<open>\<^verbatim>\<open>Number.isInteger(v)\<close>: no coercion, a non-number is not an integer.\<close>

fun isInteger :: "jsval \<Rightarrow> bool" where
  "isInteger (JNum (Finite q)) = (of_int \<lfloor>q\<rfloor> = q)"
| "isInteger v = False"

fun num_less :: "jsnum \<Rightarrow> jsnum \<Rightarrow> bool" where
  "num_less (Finite a) (Finite b) = (a < b)"
| "num_less (Finite a) PosInfinity = True"
| "num_less NegInfinity (Finite b) = True"
| "num_less NegInfinity PosInfinity = True"
| "num_less x y = False"

subsection \<open>Conversions between numbers and strings\<close>

text \<open>
  The host's conversions are written out where they are plain and left unspecified
  elsewhere: nothing can be proved here about the decimal rendering of a non-integer or
  of an integer from \<open>2 ^ 53\<close> on (where not every digit is significant), nor about the
  number a string denotes unless the string is empty or at most fifteen decimal digits.
\<close>

fun digits_of :: "nat \<Rightarrow> string" where
  "digits_of n =
     (if n < 10 then [char_of (48 + n)] else digits_of (n div 10) @ [char_of (48 + n mod 10)])"

definition int_to_string :: "int \<Rightarrow> string" where
  "int_to_string i = (if i < 0 then CHR ''-'' # digits_of (nat (- i)) else digits_of (nat i))"

definition number_to_string :: "jsnum \<Rightarrow> string" where
  "number_to_string n =
     (case n of
        NaN \<Rightarrow> ''NaN''
      | PosInfinity \<Rightarrow> ''Infinity''
      | NegInfinity \<Rightarrow> ''-Infinity''
      | Finite q \<Rightarrow>
          if of_int \<lfloor>q\<rfloor> = q \<and> \<bar>q\<bar> < 2 ^ 53 then int_to_string \<lfloor>q\<rfloor> else undefined q)"

text \<open>
  ToString, as a template \<^verbatim>\<open>${v}\<close>, \<^verbatim>\<open>regex.test(v)\<close> and
  \<^verbatim>\<open>encodeURIComponent(v)\<close> apply it; \<open>None\<close> is the TypeError it can throw. An array
  is its elements joined by commas, null and undefined left empty. An object is converted
  by its method \<^verbatim>\<open>toString\<close>: the inherited one gives \<^verbatim>\<open>[object Object]\<close>, but an
  own property of that name hides it, and since no value here is a function, the
  conversion then finds no method that gives a primitive and throws.
\<close>

fun to_string :: "jsval \<Rightarrow> string option" where
  "to_string JUndefined = Some ''undefined''"
| "to_string JNull = Some ''null''"
| "to_string (JBool b) = Some (if b then ''true'' else ''false'')"
| "to_string (JNum n) = Some (number_to_string n)"
| "to_string (JStr s) = Some s"
| "to_string (JArr xs) =
     map_option (join '','')
       (those (map (\<lambda>x. if nullish x then Some [] else to_string x) xs))"
| "to_string (JObj fs) =
     (case map_of fs ''toString'' of None \<Rightarrow> Some ''[object Object]'' | Some m \<Rightarrow> None)"

fun digits_value :: "string \<Rightarrow> nat" where
  "digits_value [] = 0"
| "digits_value (c # cs) = (of_char c - 48) * 10 ^ length cs + digits_value cs"

definition string_to_number :: "string \<Rightarrow> jsnum" where
  "string_to_number s =
     (if s = [] then Finite 0
      else if list_all is_digit s \<and> length s \<le> 15 then Finite (of_nat (digits_value s))
      else undefined s)"

text \<open>
  ToNumber, as a comparison applies it; \<open>None\<close> is the TypeError. An array goes through
  its string. An object is asked for \<^verbatim>\<open>valueOf\<close> first, which never gives a primitive
  here, and then for \<^verbatim>\<open>toString\<close> as above; \<^verbatim>\<open>[object Object]\<close> is no number.
\<close>

fun to_number :: "jsval \<Rightarrow> jsnum option" where
  "to_number JUndefined = Some NaN"
| "to_number JNull = Some (Finite 0)"
| "to_number (JBool b) = Some (if b then Finite 1 else Finite 0)"
| "to_number (JNum n) = Some n"
| "to_number (JStr s) = Some (string_to_number s)"
| "to_number (JArr xs) = map_option string_to_number (to_string (JArr xs))"
| "to_number (JObj fs) =
     (case map_of fs ''toString'' of None \<Rightarrow> Some NaN | Some m \<Rightarrow> None)"

text \<open>
  \<^verbatim>\<open>v < n\<close> and \<^verbatim>\<open>v > n\<close> against a number literal: the comparison is numeric, and
  throws when the conversion of \<open>v\<close> does.
\<close>

definition js_lt :: "jsval \<Rightarrow> rat \<Rightarrow> bool option" where
  "js_lt v n = map_option (\<lambda>x. num_less x (Finite n)) (to_number v)"

definition js_gt :: "jsval \<Rightarrow> rat \<Rightarrow> bool option" where
  "js_gt v n = map_option (\<lambda>x. num_less (Finite n) x) (to_number v)"

text \<open>
  \<^verbatim>\<open>throw new Error(`... ${v} ...`)\<close>: the message is built first, so the error thrown is
  the TypeError of the conversion when \<open>v\<close> has no string.
\<close>

definition throw_with :: "jsval \<Rightarrow> error \<Rightarrow> error + unit" where
  "throw_with v e = (case to_string v of None \<Rightarrow> Inl TypeError | Some message \<Rightarrow> Inl e)"

section \<open>uriResolver.js: generateURI\<close>

text \<open>
  The four components are read off the argument, must all be truthy, and are put into the
  template as they are; only the slug is escaped. Each use converts the component to a
  string, in the order of the source: the date for the pattern, the slug for the
  escaping, then the source and the type in the template.
\<close>

definition generateURI :: "jsval \<Rightarrow> error + string" where
  "generateURI components =
     (if nullish components then Inl TypeError
      else if truthy (js_get components ''date'') \<and> truthy (js_get components ''source'')
           \<and> truthy (js_get components ''type'') \<and> truthy (js_get components ''slug'') then
        (case to_string (js_get components ''date'') of
           None \<Rightarrow> Inl TypeError
         | Some d \<Rightarrow>
             if date_regex d then
               (case to_string (js_get components ''slug'') of
                  None \<Rightarrow> Inl TypeError
                | Some g \<Rightarrow>
                    (case encodeURIComponent g of
                       None \<Rightarrow> Inl URIError
                     | Some encodedSlug \<Rightarrow>
                         (case to_string (js_get components ''source'') of
                            None \<Rightarrow> Inl TypeError
                          | Some s \<Rightarrow>
                              (case to_string (js_get components ''type'') of
                                 None \<Rightarrow> Inl TypeError
                               | Some t \<Rightarrow>
                                   Inr (''life://'' @ d @ ''/'' @ s @ ''/'' @ t @ ''/''
                                        @ encodedSlug)))))
             else Inl DateFormat)
      else Inl MissingComponents)"

section \<open>uriResolver.js: validateLifeEvent\<close>

definition timestamp_classes :: "(char \<Rightarrow> bool) list" where
  "timestamp_classes =
     date_classes @
     [(=) CHR ''T'', is_digit, is_digit, (=) CHR '':'', is_digit, is_digit,
      (=) CHR '':'', is_digit, is_digit]"

text \<open>\<^verbatim>\<open>/^\d{4}-\d{2}-\d{2}T\d{2}:\d{2}:\d{2}/.test(s)\<close>: anything may follow the match.\<close>

definition timestamp_regex :: "string \<Rightarrow> bool" where
  "timestamp_regex s = (match_classes timestamp_classes s \<noteq> None)"

text \<open>
  \<^verbatim>\<open>/^[a-z]+\.[a-z]+$/.test(s)\<close>: the first run of lowercase letters must end at the dot,
  which is no letter, so it is the longest one.
\<close>

definition type_regex :: "string \<Rightarrow> bool" where
  "type_regex s =
     (takeWhile is_lower s \<noteq> [] \<and>
      (case dropWhile is_lower s of
         [] \<Rightarrow> False
       | c # action \<Rightarrow> c = CHR ''.'' \<and> action \<noteq> [] \<and> list_all is_lower action))"

text \<open>The loop over the four required fields: the first falsy one is reported.\<close>

fun check_required :: "jsval \<Rightarrow> string list \<Rightarrow> error + unit" where
  "check_required event [] = Inr ()"
| "check_required event (field # required) =
     (if truthy (js_get event field) then check_required event required
      else Inl (MissingField field))"

text \<open>\<^verbatim>\<open>typeof v !== 'string' || v.length === 0\<close>.\<close>

fun not_nonempty_string :: "jsval \<Rightarrow> bool" where
  "not_nonempty_string (JStr s) = (length s = 0)"
| "not_nonempty_string v = True"

text \<open>
  The loop over the linked URIs. Only a string has \<^verbatim>\<open>startsWith\<close>: on any other element
  the call itself throws.
\<close>

fun check_uris :: "jsval list \<Rightarrow> error + unit" where
  "check_uris [] = Inr ()"
| "check_uris (JStr uri # uris) =
     (if startsWith uri ''life://'' then check_uris uris else Inl InvalidLinkedURI)"
| "check_uris (v # uris) = Inl TypeError"

definition check_linked_uris :: "jsval \<Rightarrow> error + unit" where
  "check_linked_uris linked_uris =
     (if truthy linked_uris \<and> isArray linked_uris then check_uris (elements linked_uris)
      else Inr ())"

text \<open>
  The check of the mood. After \<^verbatim>\<open>Number.isInteger\<close> the comparisons are between
  numbers; the message of the error prints the mood.
\<close>

definition check_mood :: "jsval \<Rightarrow> error + unit" where
  "check_mood mood =
     (if mood = JUndefined then Inr ()
      else if isInteger mood then
        (case js_lt mood 1 of
           None \<Rightarrow> Inl TypeError
         | Some too_low \<Rightarrow>
             if too_low then throw_with mood InvalidMood
             else
               (case js_gt mood 10 of
                  None \<Rightarrow> Inl TypeError
                | Some too_high \<Rightarrow> if too_high then throw_with mood InvalidMood else Inr ()))
      else throw_with mood InvalidMood)"

definition check_duration :: "jsval \<Rightarrow> error + unit" where
  "check_duration duration =
     (if duration = JUndefined then Inr ()
      else if isInteger duration then
        (case js_lt duration 0 of
           None \<Rightarrow> Inl TypeError
         | Some too_low \<Rightarrow> if too_low then throw_with duration InvalidDuration else Inr ())
      else throw_with duration InvalidDuration)"

text \<open>
  The checks in the order of the source. The two patterns are tested on the string of the
  value, and the messages about the timestamp, the type, the source, the title, the mood
  and the duration print the value: each of these conversions can throw.
\<close>

definition validateLifeEvent :: "jsval \<Rightarrow> error + unit" where
  "validateLifeEvent event =
     (if nullish event then Inl TypeError
      else
        (case check_required event [''timestamp'', ''source'', ''type'', ''title''] of
           Inl e \<Rightarrow> Inl e
         | Inr u \<Rightarrow>
             (case to_string (js_get event ''timestamp'') of
                None \<Rightarrow> Inl TypeError
              | Some timestamp \<Rightarrow>
                  if timestamp_regex timestamp then
                    (case to_string (js_get event ''type'') of
                       None \<Rightarrow> Inl TypeError
                     | Some eventType \<Rightarrow>
                         if type_regex eventType then
                           (if not_nonempty_string (js_get event ''source'')
                            then throw_with (js_get event ''source'') InvalidSource
                            else if not_nonempty_string (js_get event ''title'')
                            then throw_with (js_get event ''title'') InvalidTitle
                            else
                              (case check_linked_uris (js_get event ''linked_uris'') of
                                 Inl e \<Rightarrow> Inl e
                               | Inr u \<Rightarrow>
                                   (case check_mood (js_get event ''mood'') of
                                      Inl e \<Rightarrow> Inl e
                                    | Inr u \<Rightarrow> check_duration (js_get event ''duration''))))
                         else throw_with (js_get event ''type'') InvalidEventType)
                  else throw_with (js_get event ''timestamp'') InvalidTimestamp)))"

section \<open>uriResolver.js: the registry and resolveURI\<close>

text \<open>
  A resolver is a callback from the parsed components to an event; it may throw (or its
  promise may reject), which is the left summand. The resolver object holds the map from
  sources to callbacks, empty when constructed.
\<close>

type_synonym resolver = "URIComponents \<Rightarrow> error + jsval"

record LifeURIResolver =
  resolvers :: "string \<rightharpoonup> resolver"

definition new_LifeURIResolver :: LifeURIResolver where
  "new_LifeURIResolver = \<lparr>resolvers = Map.empty\<rparr>"

text \<open>The argument is a callback by its type, so the \<^verbatim>\<open>typeof\<close> test cannot fail here.\<close>

definition registerResolver :: "LifeURIResolver \<Rightarrow> string \<Rightarrow> resolver \<Rightarrow> LifeURIResolver" where
  "registerResolver this src callback = this\<lparr>resolvers := (resolvers this)(src \<mapsto> callback)\<rparr>"

definition hasResolver :: "LifeURIResolver \<Rightarrow> string \<Rightarrow> bool" where
  "hasResolver this src = (resolvers this src \<noteq> None)"

definition resolveURI :: "LifeURIResolver \<Rightarrow> string \<Rightarrow> error + jsval" where
  "resolveURI this uri =
     (case parseURI uri of
        Inl e \<Rightarrow> Inl e
      | Inr parsed \<Rightarrow>
          (case resolvers this (source parsed) of
             None \<Rightarrow> Inl (NoResolver (source parsed))
           | Some callback \<Rightarrow>
               (case callback parsed of
                  Inl e \<Rightarrow> Inl (FailedToResolve uri e)
                | Inr event \<Rightarrow>
                    (case validateLifeEvent event of
                       Inl e \<Rightarrow> Inl (FailedToResolve uri e)
                     | Inr u \<Rightarrow> Inr event))))"

text \<open>\<^verbatim>\<open>BuiltInResolvers.memoryResolver(events)\<close>: a falsy entry counts as not found.\<close>

definition memoryResolver :: "(string \<rightharpoonup> jsval) \<Rightarrow> resolver" where
  "memoryResolver events parsed =
     (let key = date parsed @ ''/'' @ source parsed @ ''/'' @ type parsed @ ''/'' @ slug parsed in
      case events key of
        None \<Rightarrow> Inl (EventNotFound key)
      | Some event \<Rightarrow> if truthy event then Inr event else Inl (EventNotFound key))"

section \<open>eventTypes.js: the registry of event types\<close>

definition EVENT_TYPES :: "(string \<times> (string \<times> string) list) list" where
  "EVENT_TYPES =
     [(''music'',
         [(''play'', ''User started playing a track''),
          (''pause'', ''User paused playback''),
          (''skip'', ''User skipped to next track''),
          (''like'', ''User liked a track''),
          (''add_to_playlist'', ''User added track to playlist'')]),
      (''calendar'',
         [(''meeting'', ''Scheduled meeting or appointment''),
          (''reminder'', ''Calendar reminder triggered''),
          (''birthday'', ''Birthday or anniversary''),
          (''travel'', ''Travel event (flight, hotel, etc.)''),
          (''deadline'', ''Project or task deadline'')]),
      (''journal'',
         [(''entry'', ''Journal entry or note''),
          (''mood'', ''Mood tracking entry''),
          (''thought'', ''Quick thought or idea''),
          (''reflection'', ''Longer reflection or analysis''),
          (''goal'', ''Goal setting or tracking'')]),
      (''fitness'',
         [(''workout'', ''Exercise session''),
          (''step'', ''Step count milestone''),
          (''sleep'', ''Sleep tracking''),
          (''weight'', ''Weight measurement''),
          (''nutrition'', ''Food or meal logged'')]),
      (''location'',
         [(''arrive'', ''Arrived at a location''),
          (''depart'', ''Left a location''),
          (''visit'', ''Visited a place''),
          (''commute'', ''Travel between locations'')]),
      (''photo'',
         [(''capture'', ''Photo taken''),
          (''edit'', ''Photo edited''),
          (''share'', ''Photo shared''),
          (''album'', ''Album created or updated'')]),
      (''communication'',
         [(''call'', ''Phone or video call''),
          (''message'', ''Text or chat message''),
          (''email'', ''Email sent or received''),
          (''social'', ''Social media activity'')]),
      (''work'',
         [(''task'', ''Task completed''),
          (''project'', ''Project milestone''),
          (''meeting'', ''Work meeting''),
          (''focus'', ''Focus session''),
          (''break'', ''Work break'')]),
      (''learning'',
         [(''course'', ''Course or lesson''),
          (''reading'', ''Reading session''),
          (''study'', ''Study session''),
          (''skill'', ''Skill development'')]),
      (''finance'',
         [(''purchase'', ''Purchase made''),
          (''expense'', ''Expense logged''),
          (''income'', ''Income received''),
          (''budget'', ''Budget update'')])]"

text \<open>
  The table is a plain object, so a lookup also finds what every object inherits. An
  inherited member is a function (or the prototype itself), hence truthy; what a further
  lookup inside such a member gives, or whether it throws, is left unspecified.
\<close>

definition object_prototype_keys :: "string list" where
  "object_prototype_keys =
     [''constructor'', ''__defineGetter__'', ''__defineSetter__'', ''hasOwnProperty'',
      ''__lookupGetter__'', ''__lookupSetter__'', ''isPrototypeOf'', ''propertyIsEnumerable'',
      ''toString'', ''valueOf'', ''__proto__'', ''toLocaleString'']"

text \<open>
  The truthiness of what \<^verbatim>\<open>isValidEventType\<close> returns. The name is split at the dots;
  the first two pieces are the category and the action, and a missing action is the key
  \<^verbatim>\<open>undefined\<close>.
\<close>

definition isValidEventType :: "string \<Rightarrow> error + bool" where
  "isValidEventType eventType =
     (case split_on CHR ''.'' eventType of
        [] \<Rightarrow> Inr False
      | category # pieces \<Rightarrow>
          (let action = (case pieces of [] \<Rightarrow> ''undefined'' | a # as \<Rightarrow> a) in
           case map_of EVENT_TYPES category of
             Some actions \<Rightarrow>
               (case map_of actions action of
                  Some description \<Rightarrow> Inr (description \<noteq> [])
                | None \<Rightarrow> Inr (action \<in> set object_prototype_keys))
           | None \<Rightarrow>
               if category \<in> set object_prototype_keys then undefined eventType
               else Inr False))"

section \<open>index.js: validateLifeOSEvent\<close>

text \<open>The messages pushed onto the list of errors, in the order of the source.\<close>

datatype issue =
    TitleRequired
  | TypeRequired
  | SourceRequired
  | TimestampRequired
  | URIRequired
  | InvalidEventTypeIssue string
  | InvalidURIFormatIssue error
  | MoodRange

record EventValidationResult =
  isValid :: bool
  errors :: "issue list"

text \<open>
  The check of the type: only a string has \<^verbatim>\<open>split\<close>, so a truthy value of another kind
  makes \<^verbatim>\<open>isValidEventType\<close> throw, and nothing catches it.
\<close>

definition type_issues :: "jsval \<Rightarrow> error + issue list" where
  "type_issues t =
     (if truthy t then
        (case t of
           JStr eventType \<Rightarrow>
             (case isValidEventType eventType of
                Inl e \<Rightarrow> Inl e
              | Inr ok \<Rightarrow> Inr (if ok then [] else [InvalidEventTypeIssue eventType]))
         | _ \<Rightarrow> Inl TypeError)
      else Inr [])"

text \<open>
  The check of the URI, inside \<^verbatim>\<open>try\<close>: what parseURI throws becomes a message, and so
  does the TypeError of calling \<^verbatim>\<open>startsWith\<close> on a value that is no string.
\<close>

definition uri_issues :: "jsval \<Rightarrow> issue list" where
  "uri_issues u =
     (case u of
        JStr uri \<Rightarrow> (case parseURI uri of Inl e \<Rightarrow> [InvalidURIFormatIssue e] | Inr parsed \<Rightarrow> [])
      | _ \<Rightarrow> [InvalidURIFormatIssue TypeError])"

text \<open>
  The check of the mood: a falsy mood is passed over; otherwise it is compared as a
  number, and the comparison throws when the mood has no number.
\<close>

definition mood_issues :: "jsval \<Rightarrow> error + issue list" where
  "mood_issues mood =
     (if truthy mood then
        (case js_lt mood 1 of
           None \<Rightarrow> Inl TypeError
         | Some too_low \<Rightarrow>
             if too_low then Inr [MoodRange]
             else
               (case js_gt mood 10 of
                  None \<Rightarrow> Inl TypeError
                | Some too_high \<Rightarrow> Inr (if too_high then [MoodRange] else [])))
      else Inr [])"

definition required_issue :: "jsval \<Rightarrow> string \<Rightarrow> issue \<Rightarrow> issue list" where
  "required_issue event field message = (if truthy (js_get event field) then [] else [message])"

text \<open>
  The messages are collected in the order of the source. An exception from the check of
  the type, or after it from the check of the mood, leaves the function, whatever had
  been collected before it.
\<close>

definition validateLifeOSEvent :: "jsval \<Rightarrow> error + EventValidationResult" where
  "validateLifeOSEvent event =
     (if nullish event then Inl TypeError
      else
        (case type_issues (js_get event ''type'') of
           Inl e \<Rightarrow> Inl e
         | Inr type_errors \<Rightarrow>
             (case mood_issues (js_get event ''mood'') of
                Inl e \<Rightarrow> Inl e
              | Inr mood_errors \<Rightarrow>
                  (let errs =
                     required_issue event ''title'' TitleRequired
                     @ required_issue event ''type'' TypeRequired
                     @ required_issue event ''source'' SourceRequired
                     @ required_issue event ''timestamp'' TimestampRequired
                     @ required_issue event ''uri'' URIRequired
                     @ type_errors
                     @ uri_issues (js_get event ''uri'')
                     @ mood_errors
                   in Inr \<lparr>isValid = (length errs = 0), errors = errs\<rparr>))))"

section \<open>The example event of examples/basic-usage.js\<close>

text \<open>The event that \<^verbatim>\<open>createSpotifyEvent\<close> builds, as the list of its properties.\<close>

definition spotify_event :: "(string \<times> jsval) list" where
  "spotify_event =
     [(''timestamp'', JStr ''2025-07-09T09:00:00Z''),
      (''source'', JStr ''spotify''),
      (''type'', JStr ''music.play''),
      (''title'', JStr ''Pink + White''),
      (''metadata'',
         JObj [(''artist'', JStr ''Frank Ocean''), (''album'', JStr ''Blonde''),
               (''duration'', JNum (Finite 212)),
               (''track_id'', JStr ''spotify:track:3xKsf9qdS1CyvXSMEid6g8'')]),
      (''linked_uris'', JArr []),
      (''tags'', JArr [JStr ''chill'', JStr ''nostalgic'']),
      (''mood'', JNum (Finite 8))]"

section \<open>Evaluation of the codec and the validators\<close>

lemmas uri_eval =
  parseURI_def startsWith_def uri_parts_def date_regex_def date_classes_def is_digit_def

lemmas event_eval =
  validateLifeEvent_def nullish_def timestamp_regex_def timestamp_classes_def date_classes_def
  is_digit_def type_regex_def is_lower_def check_linked_uris_def check_mood_def
  check_duration_def startsWith_def js_lt_def js_gt_def throw_with_def

lemma decode_nonempty: "decodeURIComponent s = Some r \<Longrightarrow> s \<noteq> [] \<Longrightarrow> r \<noteq> []"
  by (cases s) (auto split: if_splits option.splits)

lemma join_nonempty: "p \<noteq> [] \<Longrightarrow> join sep (p # ps) \<noteq> []"
  by (cases ps) auto

lemma uri_parts_nonempty: "p \<in> set (uri_parts u) \<Longrightarrow> p \<noteq> []"
  by (auto simp: uri_parts_def)

lemma parseURI_empty: "parseURI [] = Inl InvalidURIFormat"
  by (simp add: parseURI_def startsWith_def)

lemma isValidEventType_empty: "isValidEventType [] = Inr False"
  by (simp add: isValidEventType_def EVENT_TYPES_def object_prototype_keys_def)

lemma isValidEventType_music_play: "isValidEventType ''music.play'' = Inr True"
  by (simp add: isValidEventType_def EVENT_TYPES_def object_prototype_keys_def)

lemma spotify_event_valid: "validateLifeEvent (JObj ((''mood'', JUndefined) # spotify_event)) = Inr ()"
  by (simp add: spotify_event_def event_eval)

section \<open>Parsing\<close>


text \<open>
  C8. The check of the date is syntactic. Whatever the other segments are, as long as there
  are four of them and the slug can be unescaped, a URI whose first segment is
  \<^verbatim>\<open>2025-13-40\<close> is accepted with that date, and one whose first segment is
  \<^verbatim>\<open>25-7-9\<close> is refused with the message about the date format (the spec's FormatError).
\<close>

theorem parseURI_date_is_syntactic:
  assumes "startsWith uri ''life://''"
    and "uri_parts uri = d # s # t # p # ps"
    and "decodeURIComponent (join ''/'' (p # ps)) = Some g"
  shows "(d = ''2025-13-40'' \<longrightarrow>
           parseURI uri = Inr \<lparr>date = ''2025-13-40'', source = s, type = t, slug = g, full = uri\<rparr>)
       \<and> (d = ''25-7-9'' \<longrightarrow> parseURI uri = Inl DateFormat)"
  using assms by (simp add: parseURI_def date_regex_def date_classes_def is_digit_def)

theorem parseURI_date_is_syntactic_witness:
  "parseURI ''life://2025-13-40/spotify/music.play/x'' =
     Inr \<lparr>date = ''2025-13-40'', source = ''spotify'', type = ''music.play'', slug = ''x'',
          full = ''life://2025-13-40/spotify/music.play/x''\<rparr>
   \<and> parseURI ''life://25-7-9/spotify/music.play/x'' = Inl DateFormat"
proof -
  have a: "startsWith ''life://2025-13-40/spotify/music.play/x'' ''life://''"
    and b: "startsWith ''life://25-7-9/spotify/music.play/x'' ''life://''"
    by (simp_all add: startsWith_def)
  have c: "uri_parts ''life://2025-13-40/spotify/music.play/x'' =
             [''2025-13-40'', ''spotify'', ''music.play'', ''x'']"
    and d: "uri_parts ''life://25-7-9/spotify/music.play/x'' =
             [''25-7-9'', ''spotify'', ''music.play'', ''x'']"
    by (simp_all add: uri_parts_def)
  have e: "decodeURIComponent (join ''/'' [''x'']) = Some ''x''"
    by simp
  from parseURI_date_is_syntactic [OF a c e] parseURI_date_is_syntactic [OF b d e]
  show ?thesis by simp
qed

text \<open>
  C9. Whenever parseURI returns components, their date, source, type and slug are
  non-empty, the date has the form of four digits, dash, two digits, dash, two digits,
  and \<open>full\<close> is the input.
\<close>

theorem parseURI_components_invariant:
  assumes "parseURI u = Inr c"
  shows "date c \<noteq> [] \<and> source c \<noteq> [] \<and> type c \<noteq> [] \<and> slug c \<noteq> []
       \<and> date_regex (date c) \<and> full c = u"
proof -
  from assms obtain d s t p ps g where
    parts: "uri_parts u = d # s # t # p # ps"
    and dec: "decodeURIComponent (join ''/'' (p # ps)) = Some g"
    and dt: "date_regex d"
    and c: "c = \<lparr>date = d, source = s, type = t, slug = g, full = u\<rparr>"
    by (auto simp: parseURI_def split: if_splits list.splits option.splits)
  have ne: "d \<noteq> []" "s \<noteq> []" "t \<noteq> []" "p \<noteq> []"
    using uri_parts_nonempty [of _ u] parts by simp_all
  from ne(4) have "join ''/'' (p # ps) \<noteq> []" by (rule join_nonempty)
  with dec have "g \<noteq> []" by (rule decode_nonempty)
  with ne dt c show ?thesis by simp
qed

theorem parseURI_components_invariant_witness:
  "parseURI ''life://2025-07-09/spotify/music.play/pink%2Bwhite'' =
     Inr \<lparr>date = ''2025-07-09'', source = ''spotify'', type = ''music.play'',
          slug = ''pink+white'', full = ''life://2025-07-09/spotify/music.play/pink%2Bwhite''\<rparr>
   \<and> date_regex ''2025-07-09''"
proof -
  have p: "parseURI ''life://2025-07-09/spotify/music.play/pink%2Bwhite'' =
     Inr \<lparr>date = ''2025-07-09'', source = ''spotify'', type = ''music.play'',
          slug = ''pink+white'', full = ''life://2025-07-09/spotify/music.play/pink%2Bwhite''\<rparr>"
    by code_simp
  from parseURI_components_invariant [OF p] p show ?thesis by simp
qed

section \<open>Generating a URI and parsing it back\<close>

lemma of_char_less: "(of_char c :: nat) < 256"
  by (cases c) simp

lemma hex_roundtrip: "k < 16 \<Longrightarrow> hex_val (hex_digit k) = Some k"
  by (auto simp: hex_val_def hex_digit_def Let_def)

lemma hex_val_high: "hex_val (hex_digit ((of_char c :: nat) div 16)) = Some (of_char c div 16)"
proof -
  have "(of_char c :: nat) div 16 < 16" using of_char_less [of c] by arith
  then show ?thesis by (rule hex_roundtrip)
qed

lemma hex_val_low: "hex_val (hex_digit ((of_char c :: nat) mod 16)) = Some (of_char c mod 16)"
  by (rule hex_roundtrip) simp

lemma parse_escape_encoded:
  "parse_escape (CHR ''%'' # hex_digit ((of_char c :: nat) div 16)
                 # hex_digit ((of_char c :: nat) mod 16) # r) = Some (of_char c)"
  by (simp add: hex_val_high hex_val_low)

lemma unreserved_ascii: "unreserved c \<Longrightarrow> (of_char c :: nat) < 128"
  by (auto simp: unreserved_def is_upper_def is_lower_def is_digit_def)

lemma unreserved_not_percent: "unreserved c \<Longrightarrow> c \<noteq> CHR ''%''"
  by (auto simp: unreserved_def is_upper_def is_lower_def is_digit_def)

lemma unreserved_not_slash: "unreserved c \<Longrightarrow> c \<noteq> CHR ''/''"
  by (auto simp: unreserved_def is_upper_def is_lower_def is_digit_def)

lemma hex_digit_not_slash: "k < 16 \<Longrightarrow> hex_digit k \<noteq> CHR ''/''"
proof
  assume k: "k < 16" and "hex_digit k = CHR ''/''"
  then have "hex_val (hex_digit k) = hex_val (CHR ''/'')" by simp
  with k show False by (simp add: hex_roundtrip) (simp add: hex_val_def)
qed

lemma encode_char_no_slash: "CHR ''/'' \<notin> set (encode_char c)"
proof (cases "unreserved c")
  case True
  then show ?thesis using unreserved_not_slash [of c] by (auto simp: encode_char_def)
next
  case False
  have "(of_char c :: nat) div 16 < 16" using of_char_less [of c] by arith
  then have "hex_digit ((of_char c :: nat) div 16) \<noteq> CHR ''/''" by (rule hex_digit_not_slash)
  moreover have "hex_digit ((of_char c :: nat) mod 16) \<noteq> CHR ''/''"
    by (rule hex_digit_not_slash) simp
  ultimately show ?thesis using False by (auto simp: encode_char_def)
qed

lemma encoded_no_slash: "CHR ''/'' \<notin> set (concat (map encode_char s))"
  using encode_char_no_slash by auto

lemma encoded_nonempty: "s \<noteq> [] \<Longrightarrow> concat (map encode_char s) \<noteq> []"
  by (cases s) (simp_all add: encode_char_def)

lemma encode_char_high:
  "128 \<le> (of_char c :: nat) \<Longrightarrow>
   encode_char c = [CHR ''%'', hex_digit ((of_char c :: nat) div 16),
                    hex_digit ((of_char c :: nat) mod 16)]"
  using unreserved_ascii [of c] by (auto simp: encode_char_def)

lemma decode_encoded_ascii:
  assumes "(of_char c :: nat) < 128"
  shows "decodeURIComponent (encode_char c @ r) = map_option ((#) c) (decodeURIComponent r)"
proof (cases "unreserved c")
  case True
  then show ?thesis using unreserved_not_percent [of c] by (simp add: encode_char_def)
next
  case False
  then show ?thesis using assms
    by (simp add: encode_char_def hex_val_high hex_val_low leading_ones_def)
qed

lemma continuation_encoded:
  assumes "list_all (\<lambda>c. 128 \<le> (of_char c :: nat)) xs"
  shows "continuation (length xs) (concat (map encode_char xs) @ r) = Some (map of_char xs)"
  using assms
proof (induction xs)
  case Nil
  then show ?case by simp
next
  case (Cons x xs)
  then show ?case by (simp add: encode_char_high hex_val_high hex_val_low)
qed

lemma encoded_high_length:
  "list_all (\<lambda>c. 128 \<le> (of_char c :: nat)) xs \<Longrightarrow>
   length (concat (map encode_char xs)) = 3 * length xs"
  by (induction xs) (simp_all add: encode_char_high)

lemma valid_utf8_shape:
  assumes "valid_utf8 (b # bs)"
  shows "length bs = leading_ones b - 1 \<and> 2 \<le> leading_ones b \<and> leading_ones b \<le> 4
       \<and> list_all (\<lambda>x. 128 \<le> x) bs"
  using assms
  by (cases "b # bs" rule: valid_utf8.cases) (auto simp: leading_ones_def is_continuation_def)

text \<open>Unescaping undoes escaping, on every well-formed string.\<close>

lemma decode_encoded:
  "well_formed s \<Longrightarrow> decodeURIComponent (concat (map encode_char s)) = Some s"
proof (induction s rule: well_formed.induct)
  case 1
  show ?case by simp
next
  case (2 c cs)
  let ?b = "of_char c :: nat"
  let ?n = "leading_ones ?b"
  show ?case
  proof (cases "?n = 0")
    case True
    with "2.prems" have wf: "well_formed cs" by (simp add: Let_def)
    from True have "?b < 128" by (simp add: leading_ones_def split: if_splits)
    then have "decodeURIComponent (encode_char c @ concat (map encode_char cs))
                 = map_option ((#) c) (decodeURIComponent (concat (map encode_char cs)))"
      by (rule decode_encoded_ascii)
    with "2.IH"(1) [OF refl refl True wf] show ?thesis by simp
  next
    case False
    let ?xs = "take (?n - 1) cs"
    let ?ys = "drop (?n - 1) cs"
    from False "2.prems" have v: "valid_utf8 (?b # map of_char ?xs)" and wf: "well_formed ?ys"
      by (simp_all add: Let_def split: if_splits)
    from valid_utf8_shape [OF v] have len: "length ?xs = ?n - 1" and n: "2 \<le> ?n" "?n \<le> 4"
      and hi: "list_all (\<lambda>c. 128 \<le> (of_char c :: nat)) ?xs"
      by (simp_all add: list_all_iff)
    from n have b: "128 \<le> ?b" by (simp add: leading_ones_def split: if_splits)
    have ih: "decodeURIComponent (concat (map encode_char ?ys)) = Some ?ys"
      by (rule "2.IH"(2) [OF refl refl False v wf])
    have enc: "concat (map encode_char (c # cs)) =
       CHR ''%'' # hex_digit (?b div 16) # hex_digit (?b mod 16)
         # (concat (map encode_char ?xs) @ concat (map encode_char ?ys))"
    proof -
      have "cs = ?xs @ ?ys" by simp
      then have "concat (map encode_char cs)
                   = concat (map encode_char ?xs) @ concat (map encode_char ?ys)"
        by (metis concat_append map_append)
      then show ?thesis by (simp add: encode_char_high [OF b])
    qed
    have cont: "continuation (?n - 1) (concat (map encode_char ?xs) @ concat (map encode_char ?ys))
                  = Some (map of_char ?xs)"
      using continuation_encoded [OF hi] len by simp
    have dr: "drop (2 + 3 * (?n - 1))
                (hex_digit (?b div 16) # hex_digit (?b mod 16)
                   # (concat (map encode_char ?xs) @ concat (map encode_char ?ys)))
                = concat (map encode_char ?ys)"
      using encoded_high_length [OF hi] len by simp
    have chars: "map char_of (?b # map of_char ?xs) = c # ?xs"
      by (simp add: comp_def)
    from n have n': "?n \<noteq> 0" "?n \<noteq> 1" "\<not> 4 < ?n" by simp_all
    have pe: "parse_escape (CHR ''%'' # hex_digit (?b div 16) # hex_digit (?b mod 16)
                 # (concat (map encode_char ?xs) @ concat (map encode_char ?ys))) = Some ?b"
      by (rule parse_escape_encoded)
    have d2: "drop 2 (hex_digit (?b div 16) # hex_digit (?b mod 16)
                 # (concat (map encode_char ?xs) @ concat (map encode_char ?ys)))
                = concat (map encode_char ?xs) @ concat (map encode_char ?ys)"
      by simp
    have "decodeURIComponent (concat (map encode_char (c # cs))) = Some ((c # ?xs) @ ?ys)"
      unfolding enc
      by (subst decodeURIComponent.simps)
        (simp only: pe n' d2 cont v dr ih chars
          if_True if_False option.case option.map simp_thms)
    then show ?thesis by simp
  qed
qed

lemma unreserved_well_formed: "list_all unreserved s \<Longrightarrow> well_formed s"
proof (induction s)
  case Nil
  show ?case by simp
next
  case (Cons c cs)
  then have "leading_ones (of_char c) = 0"
    using unreserved_ascii [of c] by (simp add: leading_ones_def)
  with Cons show ?case by (simp add: Let_def)
qed

lemma split_on_plain: "sep \<notin> set p \<Longrightarrow> split_on sep p = [p]"
  by (induction p) auto

lemma split_on_append: "sep \<notin> set p \<Longrightarrow> split_on sep (p @ sep # r) = p # split_on sep r"
  by (induction p) auto

lemma match_classes_chars:
  "match_classes ps s = Some [] \<Longrightarrow> c \<in> set s \<Longrightarrow> \<exists>p \<in> set ps. p c"
  by (induction ps s rule: match_classes.induct) (auto split: if_splits)

lemma date_regex_no_slash: "date_regex d \<Longrightarrow> CHR ''/'' \<notin> set d"
proof
  assume "date_regex d" and "CHR ''/'' \<in> set d"
  then obtain p where "p \<in> set date_classes" and "p CHR ''/''"
    using match_classes_chars [of date_classes d "CHR ''/''"] by (auto simp: date_regex_def)
  then show False by (auto simp: date_classes_def is_digit_def)
qed

lemma date_regex_nonempty: "date_regex d \<Longrightarrow> d \<noteq> []"
  by (auto simp: date_regex_def date_classes_def)

lemma uri_parts_generated:
  assumes "CHR ''/'' \<notin> set d" "CHR ''/'' \<notin> set s" "CHR ''/'' \<notin> set t" "CHR ''/'' \<notin> set e"
    and "d \<noteq> []" "s \<noteq> []" "t \<noteq> []" "e \<noteq> []"
  shows "uri_parts (''life://'' @ d @ ''/'' @ s @ ''/'' @ t @ ''/'' @ e) = [d, s, t, e]"
  using assms by (simp add: uri_parts_def split_on_append split_on_plain)

text \<open>
  C1, as the code has it. Let the four components be non-empty strings, the date of the
  form YYYY-MM-DD, the slug well formed (as every slug without reserved characters is),
  and let neither the source nor the type contain a slash. Then generateURI returns a URI,
  and parseURI returns for it the date, source, type and slug that went in. The claim as
  written does not ask for the last condition: generateURI puts source and type into the
  URI as they are, and parseURI splits at every slash.
\<close>

theorem generateURI_parseURI_roundtrip:
  assumes "js_get c ''date'' = JStr d" and "js_get c ''source'' = JStr s"
    and "js_get c ''type'' = JStr t" and "js_get c ''slug'' = JStr g"
    and "date_regex d" and "s \<noteq> []" and "t \<noteq> []" and "g \<noteq> []"
    and "well_formed g"
    and "CHR ''/'' \<notin> set s" and "CHR ''/'' \<notin> set t"
  shows "\<exists>uri. generateURI c = Inr uri
           \<and> parseURI uri = Inr \<lparr>date = d, source = s, type = t, slug = g, full = uri\<rparr>"
proof -
  let ?e = "concat (map encode_char g)"
  let ?uri = "''life://'' @ d @ ''/'' @ s @ ''/'' @ t @ ''/'' @ ?e"
  from assms(1) have nn: "\<not> nullish c" by (auto simp: nullish_def)
  from assms(5) have d: "d \<noteq> []" "CHR ''/'' \<notin> set d"
    by (simp_all add: date_regex_nonempty date_regex_no_slash)
  have gen: "generateURI c = Inr ?uri"
    using assms nn d by (simp add: generateURI_def encodeURIComponent_def)
  have parts: "uri_parts ?uri = [d, s, t, ?e]"
    using d assms encoded_no_slash [of g] encoded_nonempty [of g]
    by (intro uri_parts_generated) simp_all
  have "startsWith ?uri ''life://''" by (simp add: startsWith_def)
  with parts assms(5) decode_encoded [OF assms(9)]
  have "parseURI ?uri = Inr \<lparr>date = d, source = s, type = t, slug = g, full = ?uri\<rparr>"
    by (simp add: parseURI_def)
  with gen show ?thesis by blast
qed

theorem generateURI_parseURI_roundtrip_witness:
  "generateURI (JObj [(''date'', JStr ''2025-07-09''), (''source'', JStr ''spotify''),
                      (''type'', JStr ''music.play''), (''slug'', JStr ''pink+white'')])
     = Inr ''life://2025-07-09/spotify/music.play/pink%2Bwhite''
   \<and> parseURI ''life://2025-07-09/spotify/music.play/pink%2Bwhite''
     = Inr \<lparr>date = ''2025-07-09'', source = ''spotify'', type = ''music.play'',
            slug = ''pink+white'', full = ''life://2025-07-09/spotify/music.play/pink%2Bwhite''\<rparr>"
proof -
  let ?c = "JObj [(''date'', JStr ''2025-07-09''), (''source'', JStr ''spotify''),
                  (''type'', JStr ''music.play''), (''slug'', JStr ''pink+white'')]"
  have g: "generateURI ?c = Inr ''life://2025-07-09/spotify/music.play/pink%2Bwhite''"
    by code_simp
  have h: "js_get ?c ''date'' = JStr ''2025-07-09''" "js_get ?c ''source'' = JStr ''spotify''"
    "js_get ?c ''type'' = JStr ''music.play''" "js_get ?c ''slug'' = JStr ''pink+white''"
    "date_regex ''2025-07-09''" "''spotify'' \<noteq> []" "''music.play'' \<noteq> []" "''pink+white'' \<noteq> []"
    "well_formed ''pink+white''"
    "CHR ''/'' \<notin> set ''spotify''" "CHR ''/'' \<notin> set ''music.play''"
    by (simp_all add: date_regex_def date_classes_def is_digit_def leading_ones_def)
  from generateURI_parseURI_roundtrip [OF h] g show ?thesis by auto
qed

theorem generateURI_parseURI_slash_counterexample:
  "generateURI (JObj [(''date'', JStr ''2025-07-09''), (''source'', JStr ''apple/health''),
                      (''type'', JStr ''fitness.workout''), (''slug'', JStr ''run'')])
     = Inr ''life://2025-07-09/apple/health/fitness.workout/run''
   \<and> parseURI ''life://2025-07-09/apple/health/fitness.workout/run''
     = Inr \<lparr>date = ''2025-07-09'', source = ''apple'', type = ''health'',
            slug = ''fitness.workout/run'',
            full = ''life://2025-07-09/apple/health/fitness.workout/run''\<rparr>"
  by code_simp

section \<open>Resolution\<close>

text \<open>
  C5. If the URI parses and no callback is registered for its source, resolveURI fails with
  the error that names this source (the spec's ResolverNotFoundError).
\<close>

theorem resolveURI_no_resolver:
  assumes "parseURI uri = Inr parsed"
    and "resolvers this (source parsed) = None"
  shows "resolveURI this uri = Inl (NoResolver (source parsed))"
  using assms by (simp add: resolveURI_def)

theorem resolveURI_no_resolver_witness:
  "resolvers (registerResolver new_LifeURIResolver ''spotify'' (memoryResolver Map.empty))
     ''unknownsource'' = None
   \<and> resolveURI (registerResolver new_LifeURIResolver ''spotify'' (memoryResolver Map.empty))
       ''life://2025-07-09/unknownsource/x.y/z'' = Inl (NoResolver ''unknownsource'')"
proof -
  have p: "parseURI ''life://2025-07-09/unknownsource/x.y/z'' =
     Inr \<lparr>date = ''2025-07-09'', source = ''unknownsource'', type = ''x.y'', slug = ''z'',
          full = ''life://2025-07-09/unknownsource/x.y/z''\<rparr>"
    by (simp add: uri_eval)
  have r: "resolvers (registerResolver new_LifeURIResolver ''spotify'' (memoryResolver Map.empty))
     (source \<lparr>date = ''2025-07-09'', source = ''unknownsource'', type = ''x.y'', slug = ''z'',
          full = ''life://2025-07-09/unknownsource/x.y/z''\<rparr>) = None"
    by (simp add: registerResolver_def new_LifeURIResolver_def)
  from resolveURI_no_resolver [OF p r] r show ?thesis by simp
qed

text \<open>
  C4. If the URI parses, a callback is registered for its source and returns an event that
  validateLifeEvent refuses, then resolveURI fails with the wrapping error, which carries
  the URI as given and the cause; for an event without a timestamp the cause is the
  missing field \<^verbatim>\<open>timestamp\<close>.
\<close>

theorem resolveURI_wraps_validation_failure:
  assumes "parseURI uri = Inr parsed"
    and "resolvers this (source parsed) = Some callback"
    and "callback parsed = Inr event"
    and "validateLifeEvent event = Inl cause"
  shows "resolveURI this uri = Inl (FailedToResolve uri cause)
       \<and> (\<not> nullish event \<and> \<not> truthy (js_get event ''timestamp'')
            \<longrightarrow> cause = MissingField ''timestamp'')"
  using assms by (auto simp: resolveURI_def validateLifeEvent_def)

theorem resolveURI_wraps_validation_failure_witness:
  "resolveURI
     (registerResolver new_LifeURIResolver ''spotify''
        (memoryResolver
           [''2025-07-09/spotify/music.play/x'' \<mapsto>
              JObj [(''source'', JStr ''spotify''), (''type'', JStr ''music.play''),
                    (''title'', JStr ''Pink + White'')]]))
     ''life://2025-07-09/spotify/music.play/x''
   = Inl (FailedToResolve ''life://2025-07-09/spotify/music.play/x'' (MissingField ''timestamp''))"
proof -
  let ?event = "JObj [(''source'', JStr ''spotify''), (''type'', JStr ''music.play''),
                    (''title'', JStr ''Pink + White'')]"
  let ?callback = "memoryResolver [''2025-07-09/spotify/music.play/x'' \<mapsto> ?event]"
  let ?parsed = "\<lparr>date = ''2025-07-09'', source = ''spotify'', type = ''music.play'',
                  slug = ''x'', full = ''life://2025-07-09/spotify/music.play/x''\<rparr>"
  have p: "parseURI ''life://2025-07-09/spotify/music.play/x'' = Inr ?parsed"
    by (simp add: uri_eval)
  have r: "resolvers (registerResolver new_LifeURIResolver ''spotify'' ?callback) (source ?parsed)
             = Some ?callback"
    by (simp add: registerResolver_def new_LifeURIResolver_def)
  have c: "?callback ?parsed = Inr ?event"
    by (simp add: memoryResolver_def)
  have v: "validateLifeEvent ?event = Inl (MissingField ''timestamp'')"
    by (simp add: validateLifeEvent_def nullish_def)
  from resolveURI_wraps_validation_failure [OF p r c v] show ?thesis by simp
qed

section \<open>Validation of an event\<close>

lemma check_mood_int:
  "check_mood (JNum (Finite (of_int k))) = (if 1 \<le> k \<and> k \<le> 10 then Inr () else Inl InvalidMood)"
  by (simp add: check_mood_def js_lt_def js_gt_def throw_with_def)

lemma check_mood_other:
  assumes "v \<noteq> JUndefined" and "\<nexists>k::int. v = JNum (Finite (of_int k))"
  shows "check_mood v = throw_with v InvalidMood"
proof (cases "isInteger v")
  case True
  then obtain k :: int where "v = JNum (Finite (of_int k))"
    by (cases v rule: isInteger.cases) auto
  with assms(2) show ?thesis by blast
next
  case False
  with assms(1) show ?thesis by (simp add: check_mood_def)
qed

lemma throw_with_fails: "throw_with v e \<noteq> Inr u"
  by (simp add: throw_with_def split: option.splits)

lemma check_mood_absent: "check_mood JUndefined = Inr ()"
  by (simp add: check_mood_def)

text \<open>
  With every other rule passed, the verdict is the verdict on the mood: the other checks
  read other properties.
\<close>

lemma validate_mood_only:
  assumes ok: "validateLifeEvent without = Inr ()"
    and absent: "js_get without ''mood'' = JUndefined"
    and same: "\<And>k. k \<noteq> ''mood'' \<Longrightarrow> js_get event k = js_get without k"
    and obj: "\<not> nullish event"
  shows "validateLifeEvent event = check_mood (js_get event ''mood'')"
proof -
  have k: "js_get event ''timestamp'' = js_get without ''timestamp''"
    "js_get event ''source'' = js_get without ''source''"
    "js_get event ''type'' = js_get without ''type''"
    "js_get event ''title'' = js_get without ''title''"
    "js_get event ''linked_uris'' = js_get without ''linked_uris''"
    "js_get event ''duration'' = js_get without ''duration''"
    by (simp_all add: same)
  from ok absent obj show ?thesis
    by (simp add: validateLifeEvent_def k check_mood_absent throw_with_fails
        split: sum.splits option.splits if_splits)
qed

lemma validate_with_mood:
  assumes "validateLifeEvent (JObj ((''mood'', JUndefined) # fs)) = Inr ()"
  shows "validateLifeEvent (JObj ((''mood'', v) # fs)) = check_mood v"
proof -
  have "validateLifeEvent (JObj ((''mood'', v) # fs))
          = check_mood (js_get (JObj ((''mood'', v) # fs)) ''mood'')"
    by (rule validate_mood_only [OF assms]) (simp_all add: nullish_def)
  then show ?thesis by simp
qed

lemma validate_checks_mood:
  "validateLifeEvent event = Inr () \<Longrightarrow> check_mood (js_get event ''mood'') = Inr ()"
  by (simp add: validateLifeEvent_def throw_with_def split: sum.splits if_splits option.splits)

text \<open>
  What the check of the mood does to an event that passes every rule when its mood is
  left out. With mood 1 and with mood 10 validateLifeEvent succeeds, as with every integer
  from 1 to 10; with mood 0 and with mood 11 it fails with the message about the mood. A
  value other than \<^verbatim>\<open>undefined\<close> that is no integer from 1 to 10 (a fraction, NaN, a
  string, null, ...) fails with that message as long as it can be printed, and with
  the TypeError of the conversion when it cannot.
\<close>

lemma validateLifeEvent_mood_range:
  assumes "validateLifeEvent (JObj ((''mood'', JUndefined) # fs)) = Inr ()"
  shows "validateLifeEvent (JObj ((''mood'', JNum (Finite 1)) # fs)) = Inr ()
       \<and> validateLifeEvent (JObj ((''mood'', JNum (Finite 10)) # fs)) = Inr ()
       \<and> validateLifeEvent (JObj ((''mood'', JNum (Finite 0)) # fs)) = Inl InvalidMood
       \<and> validateLifeEvent (JObj ((''mood'', JNum (Finite 11)) # fs)) = Inl InvalidMood
       \<and> (\<forall>k::int. 1 \<le> k \<and> k \<le> 10 \<longrightarrow>
            validateLifeEvent (JObj ((''mood'', JNum (Finite (of_int k))) # fs)) = Inr ())
       \<and> (\<forall>v. v \<noteq> JUndefined \<and> (\<nexists>k::int. 1 \<le> k \<and> k \<le> 10 \<and> v = JNum (Finite (of_int k))) \<longrightarrow>
            validateLifeEvent (JObj ((''mood'', v) # fs)) =
              (if to_string v = None then Inl TypeError else Inl InvalidMood))"
proof -
  note m = validate_with_mood [OF assms]
  have "check_mood (JNum (Finite 1)) = Inr ()" "check_mood (JNum (Finite 10)) = Inr ()"
    "check_mood (JNum (Finite 0)) = Inl InvalidMood"
    "check_mood (JNum (Finite 11)) = Inl InvalidMood"
    using check_mood_int [of 1] check_mood_int [of 10] check_mood_int [of 0]
      check_mood_int [of 11] by simp_all
  moreover have "check_mood v = (if to_string v = None then Inl TypeError else Inl InvalidMood)"
    if "v \<noteq> JUndefined" and "\<nexists>k::int. 1 \<le> k \<and> k \<le> 10 \<and> v = JNum (Finite (of_int k))" for v
  proof (cases "\<exists>k::int. v = JNum (Finite (of_int k))")
    case True
    then obtain k :: int where v: "v = JNum (Finite (of_int k))" by blast
    with that(2) have "\<not> (1 \<le> k \<and> k \<le> 10)" by blast
    with v show ?thesis by (simp add: check_mood_int)
  next
    case False
    with that(1) have "check_mood v = throw_with v InvalidMood" by (rule check_mood_other)
    then show ?thesis by (simp add: throw_with_def split: option.splits)
  qed
  ultimately show ?thesis by (simp add: m check_mood_int)
qed

text \<open>
  C6. The event of the example passes every rule when its mood is left out. Give it as mood
  an object with a property \<^verbatim>\<open>toString\<close>, as \<^verbatim>\<open>JSON.parse\<close> makes from
  \<^verbatim>\<open>{"toString": 1}\<close>: it is no integer from 1 to 10, and Number.isInteger says so, but
  the message \<^verbatim>\<open>Invalid mood: ${event.mood}\<close> cannot be built, and what is thrown is
  the TypeError of the conversion, not the error about the mood (the spec's RangeError).
  On every mood that can be printed the claim holds, by the lemma above.
\<close>

theorem validateLifeEvent_mood_unprintable:
  "validateLifeEvent (JObj ((''mood'', JUndefined) # spotify_event)) = Inr ()
   \<and> validateLifeEvent
       (JObj ((''mood'', JObj [(''toString'', JNum (Finite 1))]) # spotify_event))
     = Inl TypeError"
  by (simp add: spotify_event_def event_eval)




text \<open>A title that cannot be printed: the TypeError of building the message is thrown.\<close>

lemma unprintable_title_throws:
  "validateLifeEvent (JObj ((''title'', JObj [(''toString'', JNum (Finite 1))]) # spotify_event))
     = Inl TypeError"
  by (simp add: spotify_event_def event_eval)

text \<open>
  C2. The event of the example with a single string in the place of the array of linked
  URIs: the check of the linked URIs is guarded by \<^verbatim>\<open>Array.isArray\<close> and has no other
  branch, so the event is accepted, where the claim, the schema and validateLinkedURIs
  of validate.js demand an array.
\<close>

theorem validateLifeEvent_linked_uris_not_array:
  "validateLifeEvent (JObj ((''linked_uris'', JStr ''midyear-reflection'') # spotify_event)) = Inr ()"
  by (simp add: spotify_event_def event_eval)

text \<open>
  Inside an array the elements are checked in order: a string without the prefix is
  refused with the message about the linked URI, an element that is no string makes the
  call of \<^verbatim>\<open>startsWith\<close> throw.
\<close>

lemma check_uris_strings:
  assumes "list_all is_string uris"
  shows "check_uris uris =
           (if list_all (\<lambda>v. case v of JStr uri \<Rightarrow> startsWith uri ''life://'' | _ \<Rightarrow> False) uris
            then Inr () else Inl InvalidLinkedURI)"
  using assms by (induction uris rule: check_uris.induct) auto

lemma validateLifeEvent_linked_uri_without_prefix:
  "validateLifeEvent (JObj ((''linked_uris'', JArr [JStr ''journal/entry'']) # spotify_event))
     = Inl InvalidLinkedURI"
  by (simp add: spotify_event_def event_eval)

lemma validateLifeEvent_linked_uri_not_string:
  "validateLifeEvent (JObj ((''linked_uris'', JArr [JNum (Finite 5)]) # spotify_event))
     = Inl TypeError"
  by (simp add: spotify_event_def event_eval)

section \<open>validateLifeOSEvent and the mood 0\<close>

text \<open>
  C10. An event with mood 0, a truthy title, source and timestamp, a type of the registry
  and a URI that parses: validateLifeOSEvent returns a valid result with no error at all,
  since its guard \<^verbatim>\<open>event.mood &&\<close> takes 0 for an absent mood. validateLifeEvent never
  accepts such an event.
\<close>

theorem validateLifeOSEvent_mood_zero:
  assumes "js_get event ''mood'' = JNum (Finite 0)"
    and "truthy (js_get event ''title'')"
    and "js_get event ''type'' = JStr t" and "isValidEventType t = Inr True"
    and "truthy (js_get event ''source'')"
    and "truthy (js_get event ''timestamp'')"
    and "js_get event ''uri'' = JStr u" and "parseURI u = Inr parsed"
  shows "validateLifeOSEvent event = Inr \<lparr>isValid = True, errors = []\<rparr>
       \<and> validateLifeEvent event \<noteq> Inr ()"
proof -
  from assms(1) have e: "\<not> nullish event"
    by (auto simp: nullish_def)
  from assms(4) have t: "t \<noteq> []" using isValidEventType_empty by auto
  from assms(8) have u: "u \<noteq> []" using parseURI_empty by auto
  from assms e t u have "validateLifeOSEvent event = Inr \<lparr>isValid = True, errors = []\<rparr>"
    by (simp add: validateLifeOSEvent_def mood_issues_def required_issue_def
        type_issues_def uri_issues_def Let_def)
  moreover have "validateLifeEvent event \<noteq> Inr ()"
  proof
    assume "validateLifeEvent event = Inr ()"
    then have "check_mood (js_get event ''mood'') = Inr ()" by (rule validate_checks_mood)
    with assms(1) show False using check_mood_int [of 0] by simp
  qed
  ultimately show ?thesis by simp
qed

theorem validateLifeOSEvent_mood_zero_witness:
  "validateLifeOSEvent
     (JObj ((''mood'', JNum (Finite 0))
            # (''uri'', JStr ''life://2025-07-09/spotify/music.play/pink-white'') # spotify_event))
     = Inr \<lparr>isValid = True, errors = []\<rparr>
   \<and> validateLifeEvent
     (JObj ((''mood'', JNum (Finite 0))
            # (''uri'', JStr ''life://2025-07-09/spotify/music.play/pink-white'') # spotify_event))
     = Inl InvalidMood"
proof -
  let ?event = "JObj ((''mood'', JNum (Finite 0))
            # (''uri'', JStr ''life://2025-07-09/spotify/music.play/pink-white'') # spotify_event)"
  have p: "parseURI ''life://2025-07-09/spotify/music.play/pink-white'' =
     Inr \<lparr>date = ''2025-07-09'', source = ''spotify'', type = ''music.play'',
          slug = ''pink-white'', full = ''life://2025-07-09/spotify/music.play/pink-white''\<rparr>"
    by (simp add: uri_eval)
  have h: "js_get ?event ''mood'' = JNum (Finite 0)" "truthy (js_get ?event ''title'')"
    "js_get ?event ''type'' = JStr ''music.play''" "truthy (js_get ?event ''source'')"
    "truthy (js_get ?event ''timestamp'')"
    "js_get ?event ''uri'' = JStr ''life://2025-07-09/spotify/music.play/pink-white''"
    by (simp_all add: spotify_event_def)
  have v: "validateLifeEvent ?event = Inl InvalidMood"
    by (simp add: spotify_event_def event_eval)
  from validateLifeOSEvent_mood_zero
         [OF h(1) h(2) h(3) isValidEventType_music_play h(4) h(5) h(6) p] v
  show ?thesis by simp
qed

end
